theory Spec2Isabelle
  imports Complex_Main "HOL-Library.Log_Nat"
begin

section \<open>JavaScript values used by the front end\<close>

text \<open>
  The front end is TypeScript. A value that may be \<^verbatim>\<open>undefined\<close> or \<^verbatim>\<open>null\<close> is an
  \<open>option\<close>; a thrown value is either an \<^verbatim>\<open>Error\<close> carrying its message or something
  else; a rejected promise is the left injection of a sum.
\<close>

datatype js_thrown = JsError string | JsOther

text \<open>\<^verbatim>\<open>err instanceof Error ? err.message : fallback\<close>\<close>

definition error_message :: "js_thrown \<Rightarrow> string \<Rightarrow> string" where
  "error_message err fallback = (case err of JsError m \<Rightarrow> m | JsOther \<Rightarrow> fallback)"

text \<open>
  \<^verbatim>\<open>a || d\<close> for a string \<open>a\<close> that may be undefined and a string \<open>d\<close>: the empty string
  and \<^verbatim>\<open>undefined\<close> are falsy.
\<close>

definition or_else :: "string option \<Rightarrow> string \<Rightarrow> string" where
  "or_else a d = (case a of None \<Rightarrow> d | Some s \<Rightarrow> if s = [] then d else s)"

text \<open>\<^verbatim>\<open>a || b\<close> where \<open>b\<close> may be undefined too.\<close>

definition js_or :: "string option \<Rightarrow> string option \<Rightarrow> string option" where
  "js_or a b = (case a of None \<Rightarrow> b | Some s \<Rightarrow> if s = [] then b else a)"

text \<open>\<^verbatim>\<open>a ?? d\<close>: only \<^verbatim>\<open>undefined\<close> and \<^verbatim>\<open>null\<close> fall through.\<close>

definition nullish :: "'a option \<Rightarrow> 'a \<Rightarrow> 'a" where
  "nullish a d = (case a of None \<Rightarrow> d | Some v \<Rightarrow> v)"

definition nullish_or :: "'a option \<Rightarrow> 'a option \<Rightarrow> 'a option" where
  "nullish_or a b = (case a of None \<Rightarrow> b | Some v \<Rightarrow> Some v)"

text \<open>\<^verbatim>\<open>s || undefined\<close>: an empty form field is sent as \<^verbatim>\<open>undefined\<close>.\<close>

definition or_undefined :: "string \<Rightarrow> string option" where
  "or_undefined s = (if s = [] then None else Some s)"

text \<open>Reading an array: an index outside the array gives \<^verbatim>\<open>undefined\<close>.\<close>

definition array_get :: "'a list \<Rightarrow> nat \<Rightarrow> 'a option" where
  "array_get xs i = (if i < length xs then Some (xs ! i) else None)"

text \<open>String concatenation turns \<^verbatim>\<open>undefined\<close> into the text \<^verbatim>\<open>undefined\<close>.\<close>

definition to_js_string :: "string option \<Rightarrow> string" where
  "to_js_string v = (case v of None \<Rightarrow> ''undefined'' | Some s \<Rightarrow> s)"

text \<open>Decimal rendering of a non-negative integer, as \<^verbatim>\<open>toString\<close> prints it.\<close>

definition digit :: "nat \<Rightarrow> char" where
  "digit d = ''0123456789'' ! d"

fun show_nat :: "nat \<Rightarrow> string" where
  "show_nat n = (if n < 10 then [digit n] else show_nat (n div 10) @ [digit (n mod 10)])"

declare show_nat.simps [simp del]

section \<open>Rendering an operation's size: \<^verbatim>\<open>formatBytes\<close> (OrganizationPreview.vue)\<close>

text \<open>
  \<^verbatim>\<open>
  const formatBytes = (bytes: number): string => {
    if (bytes === 0) return '0 B'
    const k = 1024
    const sizes = ['B', 'KB', 'MB', 'GB']
    const i = Math.floor(Math.log(bytes) / Math.log(k))
    return parseFloat((bytes / Math.pow(k, i)).toFixed(1)) + ' ' + sizes[i]
  }
  \<close>
  A byte count is a natural number. The arithmetic is read over the reals: the rounding of
  the doubles is not modelled. The index computed here is the code's below \<open>1024 ^ 4\<close> bytes
  and at the sizes evaluated below, where the quotient of the logarithms is far from an
  integer. Within a few bytes under \<open>1024 ^ 5\<close> the quotient of the doubles rounds up to 5,
  and the code's index is one more than this one; the unit is \<^verbatim>\<open>undefined\<close> either way.
\<close>

definition sizes :: "string list" where
  "sizes = [''B'', ''KB'', ''MB'', ''GB'']"

text \<open>\<^verbatim>\<open>Math.floor(Math.log(bytes) / Math.log(k))\<close>, which is not negative from one byte on.\<close>

definition floor_log :: "nat \<Rightarrow> nat \<Rightarrow> nat" where
  "floor_log bytes k = nat \<lfloor>ln (real bytes) / ln (real k)\<rfloor>"

text \<open>
  \<^verbatim>\<open>x.toFixed(1)\<close> picks the integer \<open>n\<close> with \<open>n / 10\<close> nearest to \<open>x\<close>, the larger
  one on a tie; the result is kept as that number of tenths.
\<close>

definition toFixed1 :: "real \<Rightarrow> nat" where
  "toFixed1 x = nat \<lfloor>x * 10 + 1 / 2\<rfloor>"

text \<open>
  \<^verbatim>\<open>parseFloat\<close> of the fixed-point text, printed again by the concatenation: a trailing
  \<^verbatim>\<open>.0\<close> is dropped.
\<close>

definition tenths_toString :: "nat \<Rightarrow> string" where
  "tenths_toString t =
     (if t mod 10 = 0 then show_nat (t div 10)
      else show_nat (t div 10) @ ''.'' @ show_nat (t mod 10))"

definition formatBytes :: "nat \<Rightarrow> string" where
  "formatBytes bytes =
     (if bytes = 0 then ''0 B''
      else
        let k = (1024 :: nat);
            i = floor_log bytes k
        in tenths_toString (toFixed1 (real bytes / real (k ^ i))) @ '' '' @
           to_js_string (array_get sizes i))"

section \<open>The application store (stores/appStore.ts)\<close>

subsection \<open>The types shared with the back end\<close>

text \<open>
  The interfaces of the store, field by field. A field name that two interfaces share
  carries a prefix here (\<open>op_\<close>, \<open>plan_\<close>, \<open>exec_\<close>, \<open>hr_\<close>, \<open>scan_\<close>); the field
  \<^verbatim>\<open>method\<close> is \<open>classification_method\<close>. A \<^verbatim>\<open>number\<close> that counts is a natural
  number, a confidence or a duration is a real, an optional field is an \<open>option\<close>.
\<close>

record HealthResponse =
  hr_status :: string
  hr_timestamp :: string
  version :: string
  python_backend :: bool
  ollama_available :: bool

record ClassificationResult =
  category :: string
  confidence :: real
  reasoning :: string
  classification_method :: string
  suggested_name :: "string option"

record ScanResponse =
  scan_id :: string
  path :: string
  total_files :: nat
  total_directories :: nat
  file_extensions :: "(string \<times> nat) list"
  key_files :: "string list"
  heuristic_classification :: ClassificationResult
  ai_classification :: "ClassificationResult option"
  final_classification :: ClassificationResult
  scan_duration_ms :: real
  scan_timestamp :: string

record OperationStep =
  operation_id :: string
  operation_type :: string
  op_source_path :: string
  op_target_path :: string
  op_estimated_time_seconds :: real
  file_count :: nat
  op_total_size_bytes :: nat
  conflicts :: "string list"
  resolution :: string

record OrganizePreviewResponse =
  plan_id :: string
  plan_scan_id :: string
  source_path :: string
  target_path :: string
  operations :: "OperationStep list"
  total_operations :: nat
  estimated_time_seconds :: real
  plan_total_files :: nat
  total_size_bytes :: nat
  conflicts_found :: nat
  safety_warnings :: "string list"
  plan_timestamp :: string

record ProcessStatus =
  is_running :: bool
  pid :: "nat option"
  port :: nat
  uptime_seconds :: "real option"
  health_status :: "string option"

record AppSettings =
  organization_root :: string
  default_ai_model :: string
  create_backup_by_default :: bool
  use_ai_by_default :: bool
  conflict_resolution_strategy :: string
  ollama_base_url :: string
  python_backend_port :: nat
  auto_start_backend :: bool

record OrganizeExecuteResponse =
  exec_operation_id :: string
  exec_plan_id :: string
  status :: string
  message :: string
  progress_url :: "string option"
  rollback_manifest :: "string option"
  exec_timestamp :: string

subsection \<open>The state of the store\<close>

datatype notification_kind = Info | Success | Warning | Error

record notification =
  notification_id :: string
  notification_type :: notification_kind
  notification_message :: string
  notification_timestamp :: nat

datatype view = Organizer | NewProject | Settings

record AppStore =
  isInitialized :: bool
  backendStatus :: "ProcessStatus option"
  health :: "HealthResponse option"
  settings :: "AppSettings option"
  availableModels :: "string list"
  currentScan :: "ScanResponse option"
  currentOrganizationPlan :: "OrganizePreviewResponse option"
  isLoading :: bool
  error :: "string option"
  notifications :: "notification list"
  currentView :: view

subsection \<open>The actions\<close>

text \<open>
  \<^verbatim>\<open>addNotification\<close> puts the notification first in the list (\<^verbatim>\<open>unshift\<close>). Its id and
  its timestamp are read from the clock, the parameter \<open>now\<close> (milliseconds). The timer it
  starts for a notification that is no error runs \<^verbatim>\<open>removeNotification\<close> five seconds
  later, which is a later step of the store and no part of this one.
\<close>

definition addNotification :: "nat \<Rightarrow> notification_kind \<Rightarrow> string \<Rightarrow> AppStore \<Rightarrow> AppStore" where
  "addNotification now kind msg s =
     s\<lparr>notifications :=
         \<lparr>notification_id = show_nat now, notification_type = kind,
          notification_message = msg, notification_timestamp = now\<rparr> # notifications s\<rparr>"

text \<open>\<^verbatim>\<open>findIndex\<close> and \<^verbatim>\<open>splice(index, 1)\<close>: the first notification with the id goes.\<close>

fun remove_first :: "string \<Rightarrow> notification list \<Rightarrow> notification list" where
  "remove_first nid [] = []"
| "remove_first nid (n # ns) =
     (if notification_id n = nid then ns else n # remove_first nid ns)"

definition removeNotification :: "string \<Rightarrow> AppStore \<Rightarrow> AppStore" where
  "removeNotification nid s = s\<lparr>notifications := remove_first nid (notifications s)\<rparr>"

definition clearError :: "AppStore \<Rightarrow> AppStore" where
  "clearError s = s\<lparr>error := None\<rparr>"

definition setLoading :: "bool \<Rightarrow> AppStore \<Rightarrow> AppStore" where
  "setLoading loading s = s\<lparr>isLoading := loading\<rparr>"

text \<open>
  The back end is reached through \<^verbatim>\<open>invoke\<close>, whose promise resolves with a response or
  rejects with a thrown value: a parameter of each action, from the arguments sent to the
  outcome. Each action issues one call; the model returns the arguments it sent, the store
  after the \<^verbatim>\<open>finally\<close> block, and the outcome of the action's own promise (rejected with
  the message of the \<^verbatim>\<open>Error\<close> it throws, or resolved with the response).
\<close>

record scan_request =
  scan_path :: string
  useAi :: bool
  aiModel :: string

record preview_request =
  scanId :: string
  targetCategory :: "string option"
  conflictResolution :: string
  createBackup :: bool
  customName :: "string option"

record execute_request =
  planId :: string
  confirmExecution :: bool

text \<open>
  \<^verbatim>\<open>
  const scanProject = async (path: string, useAI: boolean = true, aiModel?: string) => {
    try {
      setLoading(true)
      clearError()
      const scanResult = await invoke<ScanResponse>('scan_project_directory', {
        path,
        useAi: useAI,
        aiModel: aiModel || settings.value?.default_ai_model || 'llama2'
      })
      currentScan.value = scanResult
      addNotification('success', `Project scanned successfully: ${scanResult.final_classification.category}`)
      return scanResult
    } catch (err) {
      const message = err instanceof Error ? err.message : 'Failed to scan project'
      error.value = message
      addNotification('error', message)
      throw new Error(message)
    } finally {
      setLoading(false)
    }
  }
  \<close>
\<close>

definition scanProject ::
  "(scan_request \<Rightarrow> js_thrown + ScanResponse) \<Rightarrow> nat \<Rightarrow> AppStore \<Rightarrow>
   string \<Rightarrow> bool option \<Rightarrow> string option \<Rightarrow>
   scan_request \<times> AppStore \<times> (string + ScanResponse)" where
  "scanProject invoke now s p useAI model =
     (let s1 = clearError (setLoading True s);
          request = \<lparr>scan_path = p, useAi = nullish useAI True,
                     aiModel = or_else (js_or model (map_option default_ai_model (settings s1)))
                                 ''llama2''\<rparr>
      in case invoke request of
           Inr scanResult \<Rightarrow>
             (request,
              setLoading False
                (addNotification now Success
                   (''Project scanned successfully: '' @ category (final_classification scanResult))
                   (s1\<lparr>currentScan := Some scanResult\<rparr>)),
              Inr scanResult)
         | Inl err \<Rightarrow>
             (let msg = error_message err ''Failed to scan project''
              in (request,
                  setLoading False (addNotification now Error msg (s1\<lparr>error := Some msg\<rparr>)),
                  Inl msg)))"

text \<open>
  \<^verbatim>\<open>
  const previewOrganization = async (
    scanId: string, targetCategory?: string, conflictResolution?: string,
    createBackup?: boolean, customName?: string
  ) => {
    try {
      setLoading(true)
      clearError()
      const preview = await invoke<OrganizePreviewResponse>('preview_organization', {
        scanId,
        targetCategory,
        conflictResolution: conflictResolution || settings.value?.conflict_resolution_strategy || 'rename',
        createBackup: createBackup ?? settings.value?.create_backup_by_default ?? true,
        customName
      })
      currentOrganizationPlan.value = preview
      addNotification('success', `Organization plan generated: ${preview.total_operations} operations`)
      return preview
    } catch (err) {
      const message = err instanceof Error ? err.message : 'Failed to generate organization preview'
      error.value = message
      addNotification('error', message)
      throw new Error(message)
    } finally {
      setLoading(false)
    }
  }
  \<close>
\<close>

definition previewOrganization ::
  "(preview_request \<Rightarrow> js_thrown + OrganizePreviewResponse) \<Rightarrow> nat \<Rightarrow> AppStore \<Rightarrow>
   string \<Rightarrow> string option \<Rightarrow> string option \<Rightarrow> bool option \<Rightarrow> string option \<Rightarrow>
   preview_request \<times> AppStore \<times> (string + OrganizePreviewResponse)" where
  "previewOrganization invoke now s sid target resolution_arg backup_arg name_arg =
     (let s1 = clearError (setLoading True s);
          request =
            \<lparr>scanId = sid,
             targetCategory = target,
             conflictResolution =
               or_else (js_or resolution_arg
                          (map_option conflict_resolution_strategy (settings s1))) ''rename'',
             createBackup =
               nullish (nullish_or backup_arg
                          (map_option create_backup_by_default (settings s1))) True,
             customName = name_arg\<rparr>
      in case invoke request of
           Inr preview \<Rightarrow>
             (request,
              setLoading False
                (addNotification now Success
                   (''Organization plan generated: '' @ show_nat (total_operations preview) @
                    '' operations'')
                   (s1\<lparr>currentOrganizationPlan := Some preview\<rparr>)),
              Inr preview)
         | Inl err \<Rightarrow>
             (let msg = error_message err ''Failed to generate organization preview''
              in (request,
                  setLoading False (addNotification now Error msg (s1\<lparr>error := Some msg\<rparr>)),
                  Inl msg)))"

text \<open>
  \<^verbatim>\<open>
  const executeOrganization = async (planId: string) => {
    try {
      setLoading(true)
      clearError()
      const result = await invoke<OrganizeExecuteResponse>('execute_organization', {
        planId,
        confirmExecution: true
      })
      if (result.status === 'completed') {
        addNotification('success', 'Organization completed successfully!')
        // Clear current scan and plan after successful execution
        currentScan.value = null
        currentOrganizationPlan.value = null
      } else if (result.status === 'failed') {
        addNotification('error', `Organization failed: ${result.message}`)
      }
      return result
    } catch (err) {
      const message = err instanceof Error ? err.message : 'Failed to execute organization'
      error.value = message
      addNotification('error', message)
      throw new Error(message)
    } finally {
      setLoading(false)
    }
  }
  \<close>
\<close>

definition executeOrganization ::
  "(execute_request \<Rightarrow> js_thrown + OrganizeExecuteResponse) \<Rightarrow> nat \<Rightarrow> AppStore \<Rightarrow>
   string \<Rightarrow> execute_request \<times> AppStore \<times> (string + OrganizeExecuteResponse)" where
  "executeOrganization invoke now s pid_arg =
     (let s1 = clearError (setLoading True s);
          request = \<lparr>planId = pid_arg, confirmExecution = True\<rparr>
      in case invoke request of
           Inr result \<Rightarrow>
             (let s2 =
                (if status result = ''completed'' then
                   (addNotification now Success ''Organization completed successfully!'' s1)
                     \<lparr>currentScan := None, currentOrganizationPlan := None\<rparr>
                 else if status result = ''failed'' then
                   addNotification now Error (''Organization failed: '' @ message result) s1
                 else s1)
              in (request, setLoading False s2, Inr result))
         | Inl err \<Rightarrow>
             (let msg = error_message err ''Failed to execute organization''
              in (request,
                  setLoading False (addNotification now Error msg (s1\<lparr>error := Some msg\<rparr>)),
                  Inl msg)))"

section \<open>The organization-settings form (OrganizationSettings.vue, OrganizerView.vue)\<close>

text \<open>
  \<^verbatim>\<open>
  const targetCategory = ref('')
  const customName = ref('')
  const conflictResolution = ref('rename')
  const createBackup = ref(true)
  const isGenerating = ref(false)
  \<close>
\<close>

record form_state =
  form_targetCategory :: string
  form_customName :: string
  form_conflictResolution :: string
  form_createBackup :: bool
  isGenerating :: bool

definition initial_form :: form_state where
  "initial_form =
     \<lparr>form_targetCategory = '''', form_customName = '''', form_conflictResolution = ''rename'',
      form_createBackup = True, isGenerating = False\<rparr>"

text \<open>The values of the three conflict options the form offers, in the order it lists them.\<close>

definition conflictOptions :: "string list" where
  "conflictOptions = [''skip'', ''rename'', ''overwrite'']"

text \<open>
  \<^verbatim>\<open>
  emit('preview', {
    targetCategory: targetCategory.value || undefined,
    conflictResolution: conflictResolution.value,
    createBackup: createBackup.value,
    customName: customName.value || undefined
  })
  \<close>
\<close>

record preview_options =
  opt_targetCategory :: "string option"
  opt_conflictResolution :: "string option"
  opt_createBackup :: "bool option"
  opt_customName :: "string option"

definition generatePreview :: "form_state \<Rightarrow> preview_options" where
  "generatePreview form =
     \<lparr>opt_targetCategory = or_undefined (form_targetCategory form),
      opt_conflictResolution = Some (form_conflictResolution form),
      opt_createBackup = Some (form_createBackup form),
      opt_customName = or_undefined (form_customName form)\<rparr>"

text \<open>
  \<^verbatim>\<open>
  const onPreviewOrganization = async (options) => {
    if (!appStore.currentScan) return
    try {
      await appStore.previewOrganization(
        appStore.currentScan.scan_id, options.targetCategory, options.conflictResolution,
        options.createBackup, options.customName)
    } catch (error) {
      console.error('Failed to preview organization:', error)
    }
  }
  \<close>
  The view issues no request without a current scan, and swallows the rejection.
\<close>

definition onPreviewOrganization ::
  "(preview_request \<Rightarrow> js_thrown + OrganizePreviewResponse) \<Rightarrow> nat \<Rightarrow> AppStore \<Rightarrow>
   preview_options \<Rightarrow> preview_request option \<times> AppStore" where
  "onPreviewOrganization invoke now s options =
     (case currentScan s of
        None \<Rightarrow> (None, s)
      | Some scan \<Rightarrow>
          (case previewOrganization invoke now s (scan_id scan) (opt_targetCategory options)
                  (opt_conflictResolution options) (opt_createBackup options)
                  (opt_customName options) of
             (request, s', outcome) \<Rightarrow> (Some request, s')))"

subsection \<open>A store with a scan and a plan\<close>

text \<open>Concrete values for the closed instances of the theorems below.\<close>

definition sample_classification :: ClassificationResult where
  "sample_classification =
     \<lparr>category = ''Web/Frontend'', confidence = 9 / 10, reasoning = ''package.json found'',
      classification_method = ''heuristic'', suggested_name = None\<rparr>"

definition sample_scan :: ScanResponse where
  "sample_scan =
     \<lparr>scan_id = ''scan-1'', path = ''/home/dev/shop'', total_files = 4, total_directories = 1,
      file_extensions = [(''.vue'', 3), (''.json'', 1)], key_files = [''package.json''],
      heuristic_classification = sample_classification, ai_classification = None,
      final_classification = sample_classification, scan_duration_ms = 12,
      scan_timestamp = ''2025-06-03T10:00:00''\<rparr>"

definition sample_plan :: OrganizePreviewResponse where
  "sample_plan =
     \<lparr>plan_id = ''plan-1'', plan_scan_id = ''scan-1'', source_path = ''/home/dev/shop'',
      target_path = ''/home/dev/OrganizedProjects/Web/Frontend/shop'',
      operations =
        [\<lparr>operation_id = ''op-1'', operation_type = ''move_directory'',
          op_source_path = ''/home/dev/shop'',
          op_target_path = ''/home/dev/OrganizedProjects/Web/Frontend/shop'',
          op_estimated_time_seconds = 1, file_count = 4, op_total_size_bytes = 1536,
          conflicts = [], resolution = ''rename''\<rparr>],
      total_operations = 1, estimated_time_seconds = 1, plan_total_files = 4,
      total_size_bytes = 1536, conflicts_found = 0, safety_warnings = [],
      plan_timestamp = ''2025-06-03T10:00:01''\<rparr>"

definition sample_store :: AppStore where
  "sample_store =
     \<lparr>isInitialized = True, backendStatus = None, health = None, settings = None,
      availableModels = [], currentScan = Some sample_scan,
      currentOrganizationPlan = Some sample_plan, isLoading = False, error = None,
      notifications = [], currentView = Organizer\<rparr>"

definition sample_response :: "string \<Rightarrow> OrganizeExecuteResponse" where
  "sample_response st =
     \<lparr>exec_operation_id = ''exec-1'', exec_plan_id = ''plan-1'', status = st,
      message = ''done'', progress_url = None, rollback_manifest = None,
      exec_timestamp = ''2025-06-03T10:00:02''\<rparr>"

section \<open>Back-end components described by the specification\<close>

text \<open>
  The Python back end (scanner, classifiers, arbiter, plan generator, executor) is not
  among the sources: the front end above only calls it. The two components below are
  written from the specification's text, over the types the store shares with the back end.
\<close>

subsection \<open>The Classification Arbiter\<close>

text \<open>
  The threshold is configuration ("0.7 as a configurable default"). How the two reasonings
  and the two suggested names are merged is left open by the specification, so both merges
  are configuration as well.
\<close>

record arbiter_config =
  acceptance_threshold :: real
  merge_reasoning :: "string \<Rightarrow> string \<Rightarrow> string"
  merge_suggested_name :: "string option \<Rightarrow> string option \<Rightarrow> string option"

text \<open>
  Modelled from the spec: the Classification Arbiter of section 4.4, whose code is missing.
  "If no model result, return the heuristic result with method left as heuristic. If a model
  result exists and its confidence is at or above a fixed acceptance threshold (e.g. 0.7),
  return it (method = model). If below threshold, return the heuristic result but merge the
  model's reasoning/suggested-name as supplementary fields (method = hybrid)."
\<close>

definition arbiter ::
  "arbiter_config \<Rightarrow> ClassificationResult \<Rightarrow> ClassificationResult option \<Rightarrow> ClassificationResult"
  where
  "arbiter cfg heuristic model_result =
     (case model_result of
        None \<Rightarrow> heuristic
      | Some m \<Rightarrow>
          if acceptance_threshold cfg \<le> confidence m then m\<lparr>classification_method := ''model''\<rparr>
          else heuristic
                 \<lparr>reasoning := merge_reasoning cfg (reasoning heuristic) (reasoning m),
                  suggested_name :=
                    merge_suggested_name cfg (suggested_name heuristic) (suggested_name m),
                  classification_method := ''hybrid''\<rparr>)"

text \<open>
  A configuration to compute with: the threshold 0.7 the specification names as the default,
  the model's reasoning appended to the heuristic one, the heuristic name kept when there is
  one.
\<close>

definition default_arbiter_config :: arbiter_config where
  "default_arbiter_config =
     \<lparr>acceptance_threshold = 7 / 10,
      merge_reasoning = (\<lambda>h m. h @ '' | model: '' @ m),
      merge_suggested_name = nullish_or\<rparr>"

subsection \<open>The Plan Generator\<close>

text \<open>
  Modelled from the spec: the Plan Generator of section 4.5 and the plan of section 3, whose
  code is missing. The plan holds what the specification lists for it: the scan and the
  classification it is for, the source path, the computed target path, the operations in
  order, the conflict count and the safety warnings. The time and size estimates are left
  out: the specification gives no formula for them.
\<close>

datatype plan_error = InvalidTargetRoot | CategoryNotRecognized

datatype operation_kind = MoveDirectory | MoveFile | CreateDirectory

datatype conflict_strategy = Rename | Skip | Overwrite

text \<open>The strategy a request names, by the values the form's conflict options carry.\<close>

definition strategy_of :: "string \<Rightarrow> conflict_strategy option" where
  "strategy_of v =
     (if v = ''rename'' then Some Rename
      else if v = ''skip'' then Some Skip
      else if v = ''overwrite'' then Some Overwrite
      else None)"

record Operation =
  operation_kind :: operation_kind
  operation_source :: string
  operation_target :: string
  operation_conflicts :: "string list"
  operation_resolution :: "conflict_strategy option"

record OrganizationPlan =
  plan_scan :: string
  plan_classification :: ClassificationResult
  plan_source_path :: string
  plan_target_path :: string
  plan_operations :: "Operation list"
  plan_conflicts_found :: nat
  plan_safety_warnings :: "string list"

text \<open>
  The options of a preview: "explicit category override, conflict strategy, backup flag,
  custom name".
\<close>

record plan_options =
  category_override :: "string option"
  option_strategy :: conflict_strategy
  option_backup :: bool
  custom_name :: "string option"

text \<open>
  What the generator reads and cannot compute: the paths that exist (its "read-only
  existence checks"), which target roots are valid, and the sanitization that "strips
  path-unsafe characters and trims length"; the specification fixes none of the three.
\<close>

record planner_env =
  existing_paths :: "string list"
  valid_target_root :: "string \<Rightarrow> bool"
  sanitize :: "string \<Rightarrow> string"

text \<open>
  The taxonomy is "the closed set of valid category path strings"; its members are the
  categories the organization-settings form offers (OrganizationSettings.vue).
\<close>

definition taxonomy :: "string list" where
  "taxonomy =
     [''Web/Frontend'', ''Web/Backend'', ''Web/FullStack'', ''Mobile/CrossPlatform'',
      ''SystemUtilities/Python'', ''SystemUtilities/Rust'', ''SystemUtilities/Go'',
      ''Games/Unity'', ''Games/Godot'', ''Libraries/Python'', ''Libraries/JavaScript'',
      ''DataScience'', ''Misc'']"

definition join_path :: "string \<Rightarrow> string \<Rightarrow> string" where
  "join_path dir name = dir @ ''/'' @ name"

fun split_on :: "char \<Rightarrow> string \<Rightarrow> string list" where
  "split_on c [] = [[]]"
| "split_on c (x # xs) =
     (if x = c then [] # split_on c xs
      else (case split_on c xs of [] \<Rightarrow> [[x]] | w # ws \<Rightarrow> (x # w) # ws))"

definition directory_name :: "string \<Rightarrow> string" where
  "directory_name p = last (split_on CHR ''/'' p)"

text \<open>
  Modelled from the spec: the name resolution of the missing Plan Generator.
  "The resolved project name (custom name, else suggested name, else sanitized source
  directory name)".
\<close>

definition resolved_name ::
  "planner_env \<Rightarrow> string \<Rightarrow> ClassificationResult \<Rightarrow> plan_options \<Rightarrow> string" where
  "resolved_name env source cls opts =
     (case custom_name opts of
        Some n \<Rightarrow> n
      | None \<Rightarrow>
          (case suggested_name cls of
             Some n \<Rightarrow> n
           | None \<Rightarrow> sanitize env (directory_name source)))"

definition resolved_category :: "ClassificationResult \<Rightarrow> plan_options \<Rightarrow> string" where
  "resolved_category cls opts = nullish (category_override opts) (category cls)"

text \<open>
  Modelled from the spec: the path computation of the missing Plan Generator.
  "Compute target path as target root joined with the category path (slash-separated)
  joined with the resolved project name".
\<close>

definition destination ::
  "planner_env \<Rightarrow> string \<Rightarrow> ClassificationResult \<Rightarrow> string \<Rightarrow> plan_options \<Rightarrow> string" where
  "destination env source cls target_root opts =
     join_path (join_path target_root (resolved_category cls opts))
       (resolved_name env source cls opts)"

text \<open>
  Modelled from the spec: the rename strategy of the missing Plan Generator.
  "Rename appends a numeric suffix until a free name is found": the suffixes are \<open>-1\<close>,
  \<open>-2\<close>, ... in this order, after the example of the specification's scenario.
\<close>

definition suffixed :: "string \<Rightarrow> nat \<Rightarrow> string" where
  "suffixed p n = p @ ''-'' @ show_nat n"

text \<open>
  Modelled from the spec: the search of the rename strategy, from the suffix \<open>n\<close> upwards
  to the first suffixed name that does not exist.
\<close>

function free_name :: "string list \<Rightarrow> string \<Rightarrow> nat \<Rightarrow> string" where
  "free_name existing p n =
     (if suffixed p n \<in> set existing then free_name existing p (Suc n) else suffixed p n)"
  by pat_completeness auto

text \<open>
  Modelled from the spec: the directory operations of the missing Plan Generator.
  "Directory-creation operations are synthesized for every path segment between target root
  and final destination that does not yet exist": the directories of the category path,
  outermost first.
\<close>

fun directories_below :: "string \<Rightarrow> string list \<Rightarrow> string list" where
  "directories_below dir [] = []"
| "directories_below dir (seg # segs) =
     join_path dir seg # directories_below (join_path dir seg) segs"

definition create_directory :: "string \<Rightarrow> Operation" where
  "create_directory dir =
     \<lparr>operation_kind = CreateDirectory, operation_source = '''', operation_target = dir,
      operation_conflicts = [], operation_resolution = None\<rparr>"

definition overwrite_warning :: "string \<Rightarrow> string" where
  "overwrite_warning p = ''Existing path will be overwritten: '' @ p"

text \<open>
  Modelled from the spec: the missing Plan Generator's \<^verbatim>\<open>preview\<close>, which returns a plan
  or fails with \<^verbatim>\<open>InvalidTargetRoot\<close> or \<^verbatim>\<open>CategoryNotRecognized\<close>.
  "Detect conflict: if target path already exists, conflict count increments and the
  operation's resolution strategy is applied": rename moves to the first free suffixed name,
  skip and overwrite keep the path, and overwrite adds a safety warning to the plan. Without
  a conflict the operation carries no resolution.
\<close>

definition preview ::
  "planner_env \<Rightarrow> ScanResponse \<Rightarrow> ClassificationResult \<Rightarrow> string \<Rightarrow> plan_options \<Rightarrow>
   plan_error + OrganizationPlan" where
  "preview env scan cls target_root opts =
     (if \<not> valid_target_root env target_root then Inl InvalidTargetRoot
      else if resolved_category cls opts \<notin> set taxonomy then Inl CategoryNotRecognized
      else
        let dest = destination env (path scan) cls target_root opts;
            conflict = (dest \<in> set (existing_paths env));
            strategy = option_strategy opts;
            final =
              (if conflict \<and> strategy = Rename then free_name (existing_paths env) dest 1
               else dest);
            missing =
              filter (\<lambda>d. d \<notin> set (existing_paths env))
                (directories_below target_root
                   (split_on CHR ''/'' (resolved_category cls opts)));
            move =
              \<lparr>operation_kind = MoveDirectory, operation_source = path scan,
               operation_target = final,
               operation_conflicts = (if conflict then [dest] else []),
               operation_resolution = (if conflict then Some strategy else None)\<rparr>
        in Inr \<lparr>plan_scan = scan_id scan, plan_classification = cls,
                 plan_source_path = path scan, plan_target_path = final,
                 plan_operations = map create_directory missing @ [move],
                 plan_conflicts_found = (if conflict then 1 else 0),
                 plan_safety_warnings =
                   (if conflict \<and> strategy = Overwrite then [overwrite_warning dest] else [])\<rparr>)"

text \<open>
  A target root in which the destination of the sample scan exists already, and its first
  suffixed name too.
\<close>

definition sample_existing :: "string list" where
  "sample_existing =
     [''/o'', ''/o/Web'', ''/o/Web/Frontend'', ''/o/Web/Frontend/shop'',
      ''/o/Web/Frontend/shop-1'']"

definition sample_env :: "string list \<Rightarrow> planner_env" where
  "sample_env existing =
     \<lparr>existing_paths = existing, valid_target_root = (\<lambda>r. r \<in> set existing),
      sanitize = filter (\<lambda>c. c \<notin> set ''/:*?<>|'')\<rparr>"

definition sample_options :: plan_options where
  "sample_options =
     \<lparr>category_override = None, option_strategy = Rename, option_backup = True,
      custom_name = None\<rparr>"

text \<open>Reading a decimal text back, to tell the suffixed names apart.\<close>

definition digit_value :: "char \<Rightarrow> nat" where
  "digit_value c = of_char c - 48"

definition read_nat :: "string \<Rightarrow> nat" where
  "read_nat s = foldl (\<lambda>a c. 10 * a + digit_value c) 0 s"

section \<open>Theorems\<close>

subsection \<open>Evaluating the logarithm\<close>

lemma floor_log_code [code]:
  "floor_log n k = (if 0 < n \<and> 1 < k then floorlog k n - 1 else 0)"
proof (cases "0 < n \<and> 1 < k")
  case True
  then show ?thesis
    by (simp add: floorlog_def log_def floor_log_def)
next
  case False
  then have "n = 0 \<or> k = 0 \<or> k = 1"
    by auto
  then have z: "ln (real n) / ln (real k) = 0"
    by auto
  have "floor_log n k = 0"
    unfolding floor_log_def z by simp
  with False show ?thesis
    by auto
qed

lemma floor_log_bounds:
  assumes "0 < n"
  shows "1024 ^ floor_log n 1024 \<le> n" and "n < 1024 * 1024 ^ floor_log n 1024"
proof -
  have fl: "floorlog 1024 n = Suc (floor_log n 1024)"
    using assms by (simp add: floor_log_code floorlog_def)
  from floorlog_bounds [of n 1024] assms
  have "1024 ^ (floorlog 1024 n - 1) \<le> n" and "n < 1024 ^ floorlog 1024 n"
    by simp_all
  then show "1024 ^ floor_log n 1024 \<le> n" and "n < 1024 * 1024 ^ floor_log n 1024"
    by (simp_all add: fl)
qed

lemma floor_log_less_4:
  assumes "0 < n" and "n < 1024 ^ 4"
  shows "floor_log n 1024 < 4"
proof (rule ccontr)
  assume "\<not> floor_log n 1024 < 4"
  then have "(1024 :: nat) ^ 4 \<le> 1024 ^ floor_log n 1024"
    by (intro power_increasing) simp_all
  also have "\<dots> \<le> n"
    by (rule floor_log_bounds(1) [OF assms(1)])
  finally show False
    using assms(2) by simp
qed

lemma floor_log_ge_4:
  assumes "1024 ^ 4 \<le> n"
  shows "4 \<le> floor_log n 1024"
proof (rule ccontr)
  assume "\<not> 4 \<le> floor_log n 1024"
  then have "floor_log n 1024 \<le> 3"
    by simp
  then have "(1024 :: nat) ^ floor_log n 1024 \<le> 1024 ^ 3"
    by (intro power_increasing) simp_all
  moreover have "0 < n"
    using assms by (cases n) simp_all
  then have "n < 1024 * 1024 ^ floor_log n 1024"
    by (rule floor_log_bounds(2))
  ultimately have "n < 1024 * 1024 ^ 3"
    by (meson less_le_trans mult_le_mono2)
  with assms show False
    by simp
qed

lemma formatBytes_zero: "formatBytes 0 = ''0 B''"
  by (simp add: formatBytes_def)

lemma sizes_nth_mem: "i < 4 \<Longrightarrow> sizes ! i \<in> set sizes"
  by (rule nth_mem) (simp add: sizes_def)

lemma formatBytes_below_terabyte:
  assumes "0 < bytes" and "bytes < 1024 ^ 4"
  shows "\<exists>t unit. formatBytes bytes = tenths_toString t @ '' '' @ unit \<and> unit \<in> set sizes"
proof -
  let ?i = "floor_log bytes 1024"
  let ?t = "toFixed1 (real bytes / real (1024 ^ ?i))"
  have i: "?i < 4"
    using assms by (rule floor_log_less_4)
  then have unit: "array_get sizes ?i = Some (sizes ! ?i)"
    by (simp add: array_get_def sizes_def)
  have mem: "sizes ! ?i \<in> set sizes"
    using i by (rule sizes_nth_mem)
  have "formatBytes bytes = tenths_toString ?t @ '' '' @ sizes ! ?i"
    using assms(1) unit by (simp add: formatBytes_def Let_def to_js_string_def)
  with mem show ?thesis
    by blast
qed

lemma formatBytes_from_terabyte:
  assumes "1024 ^ 4 \<le> bytes"
  shows "\<exists>num. formatBytes bytes = num @ '' undefined''"
proof -
  have "4 \<le> floor_log bytes 1024"
    using assms by (rule floor_log_ge_4)
  then have "array_get sizes (floor_log bytes 1024) = None"
    by (simp add: array_get_def sizes_def)
  moreover have "bytes \<noteq> 0"
    using assms by auto
  ultimately show ?thesis
    by (simp add: formatBytes_def Let_def to_js_string_def)
qed

lemma floor_log_pos: "0 < n \<Longrightarrow> 1 < k \<Longrightarrow> floor_log n k = floorlog k n - 1"
  by (simp add: floor_log_code)

text \<open>
  C10. The unit of a size of two tebibytes: the index computed from the logarithm is 4,
  one past the four units, and the text reads \<^verbatim>\<open>2 undefined\<close>.
\<close>

theorem formatBytes_two_tebibytes: "formatBytes 2199023255552 = ''2 undefined''"
  by (simp add: formatBytes_def floor_log_pos compute_floorlog toFixed1_def tenths_toString_def
      show_nat.simps digit_def array_get_def sizes_def to_js_string_def)

subsection \<open>Executing a plan from the store\<close>

lemma executeOrganization_request:
  "fst (executeOrganization invoke now s p) = \<lparr>planId = p, confirmExecution = True\<rparr>"
  by (simp add: executeOrganization_def Let_def split: sum.splits)

lemma executeOrganization_resolved:
  assumes "invoke \<lparr>planId = p, confirmExecution = True\<rparr> = Inr result"
  shows "executeOrganization invoke now s p =
           (\<lparr>planId = p, confirmExecution = True\<rparr>,
            setLoading False
              (if status result = ''completed'' then
                 (addNotification now Success ''Organization completed successfully!''
                    (clearError (setLoading True s)))
                   \<lparr>currentScan := None, currentOrganizationPlan := None\<rparr>
               else if status result = ''failed'' then
                 addNotification now Error (''Organization failed: '' @ message result)
                   (clearError (setLoading True s))
               else clearError (setLoading True s)),
            Inr result)"
  using assms by (simp add: executeOrganization_def Let_def)

lemma store_frame [simp]:
  "currentScan (setLoading b s) = currentScan s"
  "currentOrganizationPlan (setLoading b s) = currentOrganizationPlan s"
  "currentScan (clearError s) = currentScan s"
  "currentOrganizationPlan (clearError s) = currentOrganizationPlan s"
  "currentScan (addNotification now kind msg s) = currentScan s"
  "currentOrganizationPlan (addNotification now kind msg s) = currentOrganizationPlan s"
  "settings (setLoading b s) = settings s"
  "settings (clearError s) = settings s"
  by (simp_all add: setLoading_def clearError_def addNotification_def)

lemma executeOrganization_other_status:
  assumes "invoke \<lparr>planId = p, confirmExecution = True\<rparr> = Inr result"
    and "status result \<noteq> ''completed''"
    and "executeOrganization invoke now s p = (request, s', outcome)"
  shows "currentScan s' = currentScan s"
    and "currentOrganizationPlan s' = currentOrganizationPlan s"
  using assms(2,3)
  unfolding executeOrganization_resolved [where invoke = invoke and p = p, OF assms(1)]
  by auto

lemma executeOrganization_rejected:
  assumes "invoke \<lparr>planId = p, confirmExecution = True\<rparr> = Inl err"
    and "executeOrganization invoke now s p = (request, s', outcome)"
  shows "currentScan s' = currentScan s"
    and "currentOrganizationPlan s' = currentOrganizationPlan s"
    and "outcome = Inl (error_message err ''Failed to execute organization'')"
  using assms by (auto simp: executeOrganization_def Let_def)

text \<open>
  C8. When the call to the back end resolves with a response, \<^verbatim>\<open>executeOrganization\<close>
  resolves with that response; if its status is \<^verbatim>\<open>completed\<close> the store's current scan
  and current plan are both null afterwards, and if its status is \<^verbatim>\<open>failed\<close> both are
  what they were before.
\<close>

theorem executeOrganization_clears_on_completed:
  assumes "invoke \<lparr>planId = p, confirmExecution = True\<rparr> = Inr result"
    and "executeOrganization invoke now s p = (request, s', outcome)"
  shows "outcome = Inr result \<and>
         (status result = ''completed'' \<longrightarrow>
            currentScan s' = None \<and> currentOrganizationPlan s' = None) \<and>
         (status result = ''failed'' \<longrightarrow>
            currentScan s' = currentScan s \<and>
            currentOrganizationPlan s' = currentOrganizationPlan s)"
proof -
  let ?s1 = "clearError (setLoading True s)"
  have run: "executeOrganization invoke now s p =
      (\<lparr>planId = p, confirmExecution = True\<rparr>,
       setLoading False
         (if status result = ''completed'' then
            (addNotification now Success ''Organization completed successfully!'' ?s1)
              \<lparr>currentScan := None, currentOrganizationPlan := None\<rparr>
          else if status result = ''failed'' then
            addNotification now Error (''Organization failed: '' @ message result) ?s1
          else ?s1),
       Inr result)"
    using assms(1) by (rule executeOrganization_resolved)
  from assms(2) have out: "outcome = Inr result"
    unfolding run by simp
  have completed: "currentScan s' = None \<and> currentOrganizationPlan s' = None"
    if "status result = ''completed''"
    using assms(2) that unfolding run by auto
  have failed: "currentScan s' = currentScan s \<and>
      currentOrganizationPlan s' = currentOrganizationPlan s"
    if "status result = ''failed''"
    using assms(2) that unfolding run by auto
  from out completed failed show ?thesis
    by blast
qed

theorem executeOrganization_clears_on_completed_witness:
  "(case executeOrganization (\<lambda>r. Inr (sample_response ''completed'')) 1748944800000
           sample_store ''plan-1'' of
      (request, s', outcome) \<Rightarrow>
        outcome = Inr (sample_response ''completed'') \<and>
        currentScan s' = None \<and> currentOrganizationPlan s' = None) \<and>
   (case executeOrganization (\<lambda>r. Inr (sample_response ''failed'')) 1748944800000
           sample_store ''plan-1'' of
      (request, s', outcome) \<Rightarrow>
        outcome = Inr (sample_response ''failed'') \<and>
        currentScan s' = Some sample_scan \<and> currentOrganizationPlan s' = Some sample_plan)"
proof -
  obtain r1 t1 o1 where e1:
    "executeOrganization (\<lambda>r. Inr (sample_response ''completed'')) 1748944800000
       sample_store ''plan-1'' = (r1, t1, o1)"
    by (rule prod_cases3)
  obtain r2 t2 o2 where e2:
    "executeOrganization (\<lambda>r. Inr (sample_response ''failed'')) 1748944800000
       sample_store ''plan-1'' = (r2, t2, o2)"
    by (rule prod_cases3)
  have c: "status (sample_response ''completed'') = ''completed''"
    and f: "status (sample_response ''failed'') = ''failed''"
    by (simp_all add: sample_response_def)
  have s: "currentScan sample_store = Some sample_scan"
    "currentOrganizationPlan sample_store = Some sample_plan"
    by (simp_all add: sample_store_def)
  from executeOrganization_clears_on_completed
    [where invoke = "\<lambda>r. Inr (sample_response ''completed'')" and p = "''plan-1''", OF refl e1] c
  have "o1 = Inr (sample_response ''completed'') \<and> currentScan t1 = None \<and>
      currentOrganizationPlan t1 = None"
    by simp
  moreover from executeOrganization_clears_on_completed
    [where invoke = "\<lambda>r. Inr (sample_response ''failed'')" and p = "''plan-1''", OF refl e2] f s
  have "o2 = Inr (sample_response ''failed'') \<and> currentScan t2 = Some sample_scan \<and>
      currentOrganizationPlan t2 = Some sample_plan"
    by simp
  ultimately show ?thesis
    by (simp add: e1 e2)
qed

subsection \<open>The defaults of a preview request\<close>

lemma previewOrganization_request:
  "fst (previewOrganization invoke now s sid target resolution_arg backup_arg name_arg) =
     \<lparr>scanId = sid, targetCategory = target,
      conflictResolution =
        or_else (js_or resolution_arg (map_option conflict_resolution_strategy (settings s)))
          ''rename'',
      createBackup =
        nullish (nullish_or backup_arg (map_option create_backup_by_default (settings s))) True,
      customName = name_arg\<rparr>"
  by (simp add: previewOrganization_def Let_def split: sum.splits)

lemma previewOrganization_run:
  "previewOrganization invoke now s sid target resolution_arg backup_arg name_arg =
     (let request =
            \<lparr>scanId = sid, targetCategory = target,
             conflictResolution =
               or_else (js_or resolution_arg (map_option conflict_resolution_strategy (settings s)))
                 ''rename'',
             createBackup =
               nullish (nullish_or backup_arg (map_option create_backup_by_default (settings s)))
                 True,
             customName = name_arg\<rparr>
      in case invoke request of
           Inr pv \<Rightarrow>
             (request,
              setLoading False
                (addNotification now Success
                   (''Organization plan generated: '' @ show_nat (total_operations pv) @
                    '' operations'')
                   ((clearError (setLoading True s))\<lparr>currentOrganizationPlan := Some pv\<rparr>)),
              Inr pv)
         | Inl err \<Rightarrow>
             (request,
              setLoading False
                (addNotification now Error
                   (error_message err ''Failed to generate organization preview'')
                   ((clearError (setLoading True s))
                      \<lparr>error := Some (error_message err
                                         ''Failed to generate organization preview'')\<rparr>)),
              Inl (error_message err ''Failed to generate organization preview'')))"
  by (simp add: previewOrganization_def Let_def split: sum.splits)

text \<open>
  C9. With no conflict resolution passed and no settings loaded, the one call that
  \<^verbatim>\<open>previewOrganization\<close> makes to the back end carries the conflict strategy
  \<^verbatim>\<open>rename\<close>, and it carries \<^verbatim>\<open>createBackup\<close> true when that argument is undefined
  too (the argument itself when it is given): the outcome of the action and the plan in the
  store afterwards are what \<^verbatim>\<open>invoke\<close> answers to exactly that request. These are the
  values the organization-settings form starts from.
\<close>

theorem previewOrganization_defaults:
  assumes "settings s = None"
    and "previewOrganization invoke now s sid target None backup_arg name_arg =
           (request, s', outcome)"
  shows "conflictResolution request = ''rename'' \<and>
         conflictResolution request = form_conflictResolution initial_form \<and>
         createBackup request = (case backup_arg of None \<Rightarrow> True | Some b \<Rightarrow> b) \<and>
         (backup_arg = None \<longrightarrow> createBackup request = form_createBackup initial_form) \<and>
         request =
           \<lparr>scanId = sid, targetCategory = target, conflictResolution = ''rename'',
            createBackup = (case backup_arg of None \<Rightarrow> True | Some b \<Rightarrow> b),
            customName = name_arg\<rparr> \<and>
         outcome =
           (case invoke
                   \<lparr>scanId = sid, targetCategory = target, conflictResolution = ''rename'',
                    createBackup = (case backup_arg of None \<Rightarrow> True | Some b \<Rightarrow> b),
                    customName = name_arg\<rparr> of
              Inr pv \<Rightarrow> Inr pv
            | Inl err \<Rightarrow> Inl (error_message err ''Failed to generate organization preview'')) \<and>
         currentOrganizationPlan s' =
           (case invoke
                   \<lparr>scanId = sid, targetCategory = target, conflictResolution = ''rename'',
                    createBackup = (case backup_arg of None \<Rightarrow> True | Some b \<Rightarrow> b),
                    customName = name_arg\<rparr> of
              Inr pv \<Rightarrow> Some pv
            | Inl err \<Rightarrow> currentOrganizationPlan s)"
proof -
  let ?backup = "case backup_arg of None \<Rightarrow> True | Some b \<Rightarrow> b"
  let ?req = "\<lparr>scanId = sid, targetCategory = target, conflictResolution = ''rename'',
      createBackup = ?backup, customName = name_arg\<rparr>"
  have strategy: "or_else (js_or None (map_option conflict_resolution_strategy (settings s)))
      ''rename'' = ''rename''"
    by (simp add: assms(1) js_or_def or_else_def)
  have backup: "nullish (nullish_or backup_arg (map_option create_backup_by_default (settings s)))
      True = ?backup"
    by (simp add: assms(1) nullish_def nullish_or_def split: option.splits)
  have run: "(request, s', outcome) =
      (case invoke ?req of
         Inr pv \<Rightarrow>
           (?req,
            setLoading False
              (addNotification now Success
                 (''Organization plan generated: '' @ show_nat (total_operations pv) @
                  '' operations'')
                 ((clearError (setLoading True s))\<lparr>currentOrganizationPlan := Some pv\<rparr>)),
            Inr pv)
       | Inl err \<Rightarrow>
           (?req,
            setLoading False
              (addNotification now Error
                 (error_message err ''Failed to generate organization preview'')
                 ((clearError (setLoading True s))
                    \<lparr>error := Some (error_message err
                                       ''Failed to generate organization preview'')\<rparr>)),
            Inl (error_message err ''Failed to generate organization preview'')))"
    unfolding assms(2) [symmetric] previewOrganization_run Let_def strategy backup
    by (rule refl)
  have req: "request = ?req"
    using run by (cases "invoke ?req") simp_all
  have out: "outcome =
      (case invoke ?req of
         Inr pv \<Rightarrow> Inr pv
       | Inl err \<Rightarrow> Inl (error_message err ''Failed to generate organization preview''))"
    using run by (cases "invoke ?req") simp_all
  have plan: "currentOrganizationPlan s' =
      (case invoke ?req of Inr pv \<Rightarrow> Some pv | Inl err \<Rightarrow> currentOrganizationPlan s)"
    using run
    by (cases "invoke ?req") (auto simp: setLoading_def addNotification_def clearError_def)
  have "conflictResolution request = ''rename''" and "createBackup request = ?backup"
    by (simp_all add: req)
  with req out plan show ?thesis
    by (simp add: initial_form_def)
qed

text \<open>
  A back end that answers with the plan only to a request for \<^verbatim>\<open>rename\<close> with a backup,
  and a store that holds no plan yet: the action resolves with the plan and stores it.
\<close>

theorem previewOrganization_defaults_witness:
  "settings (sample_store\<lparr>currentOrganizationPlan := None\<rparr>) = None \<and>
   (case previewOrganization
           (\<lambda>r. if conflictResolution r = ''rename'' \<and> createBackup r then Inr sample_plan
                else Inl JsOther)
           1748944800000 (sample_store\<lparr>currentOrganizationPlan := None\<rparr>) ''scan-1''
           None None None None of
      (request, s', outcome) \<Rightarrow>
        conflictResolution request = ''rename'' \<and> createBackup request = True \<and>
        form_conflictResolution initial_form = ''rename'' \<and>
        form_createBackup initial_form = True \<and>
        outcome = Inr sample_plan \<and> currentOrganizationPlan s' = Some sample_plan)"
proof -
  let ?invoke = "\<lambda>r. if conflictResolution r = ''rename'' \<and> createBackup r then Inr sample_plan
      else Inl JsOther"
  let ?s = "sample_store\<lparr>currentOrganizationPlan := None\<rparr>"
  have none: "settings ?s = None"
    by (simp add: sample_store_def)
  obtain r t out where e:
    "previewOrganization ?invoke 1748944800000 ?s ''scan-1'' None None None None = (r, t, out)"
    by (rule prod_cases3)
  from previewOrganization_defaults [where invoke = ?invoke, OF none e]
  have "conflictResolution r = ''rename'' \<and> createBackup r = True \<and>
      form_conflictResolution initial_form = ''rename'' \<and> form_createBackup initial_form = True \<and>
      out = Inr sample_plan \<and> currentOrganizationPlan t = Some sample_plan"
    by (simp add: initial_form_def)
  with none show ?thesis
    by (simp add: e)
qed

text \<open>
  The form passes its own values on, so a preview started from the untouched form asks for
  \<^verbatim>\<open>rename\<close> with a backup whatever the settings say.
\<close>

lemma onPreviewOrganization_from_initial_form:
  assumes "currentScan s = Some scan"
  shows "fst (onPreviewOrganization invoke now s (generatePreview initial_form)) =
           Some \<lparr>scanId = scan_id scan, targetCategory = None, conflictResolution = ''rename'',
                 createBackup = True, customName = None\<rparr>"
proof -
  obtain r t out where e:
    "previewOrganization invoke now s (scan_id scan) None (Some ''rename'') (Some True) None =
       (r, t, out)"
    by (rule prod_cases3)
  from previewOrganization_request [of invoke now s "scan_id scan" None "Some ''rename''"
      "Some True" None]
  have "r = \<lparr>scanId = scan_id scan, targetCategory = None, conflictResolution = ''rename'',
      createBackup = True, customName = None\<rparr>"
    by (simp add: e js_or_def or_else_def nullish_def nullish_or_def)
  then show ?thesis
    using assms e
    by (simp add: onPreviewOrganization_def generatePreview_def initial_form_def or_undefined_def)
qed

subsection \<open>The arbiter never raises the confidence\<close>

lemma arbiter_no_model: "arbiter cfg h None = h"
  by (simp add: arbiter_def)

lemma arbiter_accepts:
  "acceptance_threshold cfg \<le> confidence m \<Longrightarrow>
   arbiter cfg h (Some m) = m\<lparr>classification_method := ''model''\<rparr>"
  by (simp add: arbiter_def)

lemma arbiter_hybrid:
  "confidence m < acceptance_threshold cfg \<Longrightarrow>
   confidence (arbiter cfg h (Some m)) = confidence h \<and>
   category (arbiter cfg h (Some m)) = category h \<and>
   classification_method (arbiter cfg h (Some m)) = ''hybrid''"
  by (simp add: arbiter_def)

lemma arbiter_confidence_is_an_input:
  "confidence (arbiter cfg h mo) = confidence h \<or>
   (\<exists>m. mo = Some m \<and> confidence (arbiter cfg h mo) = confidence m)"
  by (cases mo) (simp_all add: arbiter_def)

text \<open>
  C4. The confidence of the arbiter's result is at most the heuristic confidence when there
  is no model result, and at most the larger of the heuristic and the model confidence when
  there is one.
\<close>

theorem arbiter_confidence_bounded:
  "confidence (arbiter cfg h mo) \<le>
     (case mo of None \<Rightarrow> confidence h | Some m \<Rightarrow> max (confidence h) (confidence m))"
proof (cases mo)
  case None
  then show ?thesis
    by (simp add: arbiter_no_model)
next
  case (Some m)
  show ?thesis
  proof (cases "acceptance_threshold cfg \<le> confidence m")
    case True
    then have "confidence (arbiter cfg h (Some m)) = confidence m"
      by (simp add: arbiter_accepts)
    with Some show ?thesis
      by simp
  next
    case False
    then have "confidence (arbiter cfg h (Some m)) = confidence h"
      by (simp add: arbiter_hybrid)
    with Some show ?thesis
      by simp
  qed
qed

theorem arbiter_confidence_bounded_witness:
  "confidence (arbiter default_arbiter_config sample_classification
      (Some (sample_classification\<lparr>confidence := 1 / 2, classification_method := ''model''\<rparr>)))
     \<le> max (9 / 10) (1 / 2) \<and>
   confidence (arbiter default_arbiter_config
      (sample_classification\<lparr>confidence := 3 / 10\<rparr>)
      (Some (sample_classification\<lparr>confidence := 4 / 5, classification_method := ''model''\<rparr>)))
     \<le> max (3 / 10) (4 / 5) \<and>
   confidence (arbiter default_arbiter_config sample_classification None) \<le> 9 / 10"
  using
    arbiter_confidence_bounded [of default_arbiter_config sample_classification
      "Some (sample_classification\<lparr>confidence := 1 / 2, classification_method := ''model''\<rparr>)"]
    arbiter_confidence_bounded [of default_arbiter_config
      "sample_classification\<lparr>confidence := 3 / 10\<rparr>"
      "Some (sample_classification\<lparr>confidence := 4 / 5, classification_method := ''model''\<rparr>)"]
    arbiter_confidence_bounded [of default_arbiter_config sample_classification None]
  by (simp add: sample_classification_def)

lemma arbiter_examples:
  "arbiter default_arbiter_config sample_classification
     (Some \<lparr>category = ''Web/Backend'', confidence = 1 / 2, reasoning = ''express'',
            classification_method = ''model'', suggested_name = Some ''shop-api''\<rparr>) =
   \<lparr>category = ''Web/Frontend'', confidence = 9 / 10,
    reasoning = ''package.json found | model: express'',
    classification_method = ''hybrid'', suggested_name = Some ''shop-api''\<rparr>"
  "arbiter default_arbiter_config sample_classification
     (Some \<lparr>category = ''Web/Backend'', confidence = 4 / 5, reasoning = ''express'',
            classification_method = ''model'', suggested_name = Some ''shop-api''\<rparr>) =
   \<lparr>category = ''Web/Backend'', confidence = 4 / 5, reasoning = ''express'',
    classification_method = ''model'', suggested_name = Some ''shop-api''\<rparr>"
  by (simp_all add: arbiter_def default_arbiter_config_def sample_classification_def
      nullish_or_def)

subsection \<open>The rename search ends\<close>

lemma digit_value_digit: "d < 10 \<Longrightarrow> digit_value (digit d) = d"
proof -
  assume "d < 10"
  then have "d \<in> {0, 1, 2, 3, 4, 5, 6, 7, 8, 9}"
    by auto
  then show ?thesis
    by (auto simp: digit_value_def digit_def)
qed

lemma read_nat_snoc: "read_nat (s @ [c]) = 10 * read_nat s + digit_value c"
  by (simp add: read_nat_def)

lemma read_show_nat: "read_nat (show_nat n) = n"
proof (induction n rule: show_nat.induct)
  case (1 n)
  show ?case
  proof (cases "n < 10")
    case True
    then show ?thesis
      by (simp add: show_nat.simps [of n] read_nat_def digit_value_digit)
  next
    case False
    then have "read_nat (show_nat n) =
        10 * read_nat (show_nat (n div 10)) + digit_value (digit (n mod 10))"
      by (simp add: show_nat.simps [of n] read_nat_snoc)
    also have "\<dots> = 10 * (n div 10) + n mod 10"
      using False by (simp add: "1.IH" digit_value_digit)
    finally show ?thesis
      by simp
  qed
qed

lemma show_nat_inj: "show_nat m = show_nat n \<Longrightarrow> m = n"
  by (metis read_show_nat)

lemma suffixed_inj: "inj (suffixed p)"
  by (rule injI) (simp add: suffixed_def show_nat_inj)

lemma finite_suffixes: "finite {k. suffixed p k \<in> set existing}"
proof -
  have "finite (suffixed p -` set existing)"
    by (rule finite_vimageI [OF _ suffixed_inj]) simp
  then show ?thesis
    by (simp add: vimage_def)
qed

termination free_name
proof (relation "measure (\<lambda>(existing, p, n). card {k. n \<le> k \<and> suffixed p k \<in> set existing})")
  show "wf (measure (\<lambda>(existing, p, n). card {k. n \<le> k \<and> suffixed p k \<in> set existing}))"
    by simp
next
  fix existing :: "string list" and p :: string and n :: nat
  assume taken: "suffixed p n \<in> set existing"
  let ?A = "{k. Suc n \<le> k \<and> suffixed p k \<in> set existing}"
  let ?B = "{k. n \<le> k \<and> suffixed p k \<in> set existing}"
  have "finite ?B"
    by (rule finite_subset [OF _ finite_suffixes [of p existing]]) auto
  moreover have "?A \<subset> ?B"
  proof -
    have "?A \<subseteq> ?B"
      by auto
    moreover have "n \<in> ?B - ?A"
      using taken by simp
    ultimately show ?thesis
      by blast
  qed
  ultimately have "card ?A < card ?B"
    by (rule psubset_card_mono)
  then show "((existing, p, Suc n), (existing, p, n))
      \<in> measure (\<lambda>(existing, p, n). card {k. n \<le> k \<and> suffixed p k \<in> set existing})"
    by simp
qed

declare free_name.simps [simp del]

lemma free_name_first_free:
  "\<exists>k. n \<le> k \<and> free_name existing p n = suffixed p k \<and> suffixed p k \<notin> set existing \<and>
       (\<forall>j. n \<le> j \<and> j < k \<longrightarrow> suffixed p j \<in> set existing)"
proof (induction existing p n rule: free_name.induct)
  case (1 existing p n)
  show ?case
  proof (cases "suffixed p n \<in> set existing")
    case False
    then have "free_name existing p n = suffixed p n"
      by (simp add: free_name.simps [of existing p n])
    with False show ?thesis
      by (intro exI [of _ n]) auto
  next
    case True
    then have step: "free_name existing p n = free_name existing p (Suc n)"
      by (simp add: free_name.simps [of existing p n])
    from "1.IH" [OF True] obtain k where k: "Suc n \<le> k"
      "free_name existing p (Suc n) = suffixed p k" "suffixed p k \<notin> set existing"
      "\<forall>j. Suc n \<le> j \<and> j < k \<longrightarrow> suffixed p j \<in> set existing"
      by blast
    have "\<forall>j. n \<le> j \<and> j < k \<longrightarrow> suffixed p j \<in> set existing"
    proof (intro allI impI)
      fix j
      assume "n \<le> j \<and> j < k"
      then consider "j = n" | "Suc n \<le> j \<and> j < k"
        by linarith
      then show "suffixed p j \<in> set existing"
        using True k(4) by cases auto
    qed
    with k step show ?thesis
      by (intro exI [of _ k]) simp
  qed
qed

subsection \<open>A conflicting destination under the rename strategy\<close>

lemma preview_rename_conflict:
  assumes "valid_target_root env target_root"
    and "resolved_category cls opts \<in> set taxonomy"
    and "destination env (path scan) cls target_root opts \<in> set (existing_paths env)"
    and "option_strategy opts = Rename"
  shows "\<exists>plan. preview env scan cls target_root opts = Inr plan \<and>
           plan_target_path plan =
             free_name (existing_paths env) (destination env (path scan) cls target_root opts) 1 \<and>
           plan_conflicts_found plan = 1 \<and> plan_safety_warnings plan = []"
  using assms by (simp add: preview_def Let_def)

text \<open>
  C6. When the target root is valid, the category is one of the taxonomy, the computed
  destination already exists and the strategy is rename, the generator returns a plan whose
  target path is the destination with a suffix \<open>-k\<close>, \<open>k\<close> at least 1; that path does not
  exist, every smaller suffix does, and the plan's conflict count is 1.
\<close>

theorem preview_rename_suffix:
  assumes "valid_target_root env target_root"
    and "resolved_category cls opts \<in> set taxonomy"
    and "destination env (path scan) cls target_root opts \<in> set (existing_paths env)"
    and "option_strategy opts = Rename"
  shows "\<exists>plan k. preview env scan cls target_root opts = Inr plan \<and> 1 \<le> k \<and>
           plan_target_path plan =
             destination env (path scan) cls target_root opts @ ''-'' @ show_nat k \<and>
           plan_target_path plan \<notin> set (existing_paths env) \<and>
           (\<forall>j. 1 \<le> j \<and> j < k \<longrightarrow>
              destination env (path scan) cls target_root opts @ ''-'' @ show_nat j
                \<in> set (existing_paths env)) \<and>
           plan_conflicts_found plan = 1"
proof -
  let ?dest = "destination env (path scan) cls target_root opts"
  from preview_rename_conflict [OF assms] obtain plan where plan:
    "preview env scan cls target_root opts = Inr plan"
    "plan_target_path plan = free_name (existing_paths env) ?dest 1"
    "plan_conflicts_found plan = 1"
    by blast
  from free_name_first_free [of 1 "existing_paths env" ?dest] obtain k where k:
    "1 \<le> k" "free_name (existing_paths env) ?dest 1 = suffixed ?dest k"
    "suffixed ?dest k \<notin> set (existing_paths env)"
    "\<forall>j. 1 \<le> j \<and> j < k \<longrightarrow> suffixed ?dest j \<in> set (existing_paths env)"
    by blast
  from plan k show ?thesis
    by (intro exI [of _ plan] exI [of _ k]) (simp add: suffixed_def)
qed

lemma conflictOptions_strategies:
  "map strategy_of conflictOptions = [Some Skip, Some Rename, Some Overwrite]"
  by (simp add: conflictOptions_def strategy_of_def)

lemma preview_example_fresh:
  "preview (sample_env [''/o'']) sample_scan sample_classification ''/o'' sample_options =
     Inr \<lparr>plan_scan = ''scan-1'', plan_classification = sample_classification,
          plan_source_path = ''/home/dev/shop'', plan_target_path = ''/o/Web/Frontend/shop'',
          plan_operations =
            [create_directory ''/o/Web'', create_directory ''/o/Web/Frontend'',
             \<lparr>operation_kind = MoveDirectory, operation_source = ''/home/dev/shop'',
              operation_target = ''/o/Web/Frontend/shop'', operation_conflicts = [],
              operation_resolution = None\<rparr>],
          plan_conflicts_found = 0, plan_safety_warnings = []\<rparr>"
  by (simp add: preview_def Let_def destination_def resolved_category_def resolved_name_def
      join_path_def directory_name_def sample_env_def sample_options_def
      sample_scan_def sample_classification_def taxonomy_def nullish_def)

lemma preview_example:
  "preview (sample_env sample_existing) sample_scan sample_classification ''/o'' sample_options =
     Inr \<lparr>plan_scan = ''scan-1'', plan_classification = sample_classification,
          plan_source_path = ''/home/dev/shop'', plan_target_path = ''/o/Web/Frontend/shop-2'',
          plan_operations =
            [\<lparr>operation_kind = MoveDirectory, operation_source = ''/home/dev/shop'',
              operation_target = ''/o/Web/Frontend/shop-2'',
              operation_conflicts = [''/o/Web/Frontend/shop''],
              operation_resolution = Some Rename\<rparr>],
          plan_conflicts_found = 1, plan_safety_warnings = []\<rparr>"
  by (simp add: preview_def Let_def destination_def resolved_category_def resolved_name_def
      join_path_def directory_name_def sample_env_def sample_existing_def sample_options_def
      sample_scan_def sample_classification_def taxonomy_def nullish_def suffixed_def
      free_name.simps show_nat.simps digit_def)

theorem preview_rename_suffix_witness:
  "valid_target_root (sample_env sample_existing) ''/o'' \<and>
   resolved_category sample_classification sample_options \<in> set taxonomy \<and>
   destination (sample_env sample_existing) (path sample_scan) sample_classification ''/o''
     sample_options = ''/o/Web/Frontend/shop'' \<and>
   ''/o/Web/Frontend/shop'' \<in> set (existing_paths (sample_env sample_existing)) \<and>
   option_strategy sample_options = Rename \<and>
   (\<exists>plan k. preview (sample_env sample_existing) sample_scan sample_classification ''/o''
        sample_options = Inr plan \<and> 1 \<le> k \<and>
      plan_target_path plan = ''/o/Web/Frontend/shop'' @ ''-'' @ show_nat k \<and>
      plan_target_path plan \<notin> set (existing_paths (sample_env sample_existing)) \<and>
      plan_conflicts_found plan = 1)"
proof -
  let ?env = "sample_env sample_existing"
  have root: "valid_target_root ?env ''/o''"
    by (simp add: sample_env_def sample_existing_def)
  have cat: "resolved_category sample_classification sample_options \<in> set taxonomy"
    by (simp add: resolved_category_def sample_classification_def sample_options_def
        nullish_def taxonomy_def)
  have dest: "destination ?env (path sample_scan) sample_classification ''/o'' sample_options =
      ''/o/Web/Frontend/shop''"
    by (simp add: destination_def resolved_category_def resolved_name_def join_path_def
        directory_name_def sample_env_def sample_options_def sample_scan_def
        sample_classification_def nullish_def)
  have taken: "''/o/Web/Frontend/shop'' \<in> set (existing_paths ?env)"
    by (simp add: sample_env_def sample_existing_def)
  have strategy: "option_strategy sample_options = Rename"
    by (simp add: sample_options_def)
  from taken have taken': "destination ?env (path sample_scan) sample_classification ''/o''
      sample_options \<in> set (existing_paths ?env)"
    by (simp only: dest)
  from preview_rename_suffix [OF root cat taken' strategy]
  have "\<exists>plan k. preview ?env sample_scan sample_classification ''/o'' sample_options = Inr plan \<and>
      1 \<le> k \<and> plan_target_path plan = ''/o/Web/Frontend/shop'' @ ''-'' @ show_nat k \<and>
      plan_target_path plan \<notin> set (existing_paths ?env) \<and> plan_conflicts_found plan = 1"
    unfolding dest by blast
  with root cat dest taken strategy show ?thesis
    by blast
qed

end
